theory Spec2Isabelle
  imports Complex_Main "HOL-Library.Word" "HOL-Library.AList"
begin

unbundle bit_operations_syntax

section \<open>Failures\<close>

text \<open>
  Every exception the modelled code can raise is a value. \<open>out_of_range\<close> is
  \<^verbatim>\<open>std::out_of_range\<close> and carries its message; \<open>type_error\<close> is the JSON
  library's \<^verbatim>\<open>type_error\<close> with its numeric id (302: wrong type for \<^verbatim>\<open>get\<close>,
  305: \<^verbatim>\<open>operator[]\<close> with a key on a non-object); \<open>length_error\<close> is
  \<^verbatim>\<open>std::length_error\<close> of \<^verbatim>\<open>vector::resize\<close>; \<open>stream_error\<close> is the fatal
  condition of the byte stream on truncated input; \<open>undefined_behaviour\<close> marks a
  conversion the language leaves undefined.
\<close>

datatype error =
    out_of_range string
  | type_error nat
  | length_error
  | stream_error
  | undefined_behaviour

section \<open>The generic registry (\<^verbatim>\<open>Registry<KeyType, Function>\<close>)\<close>

text \<open>
  \<^verbatim>\<open>registry_\<close> is a \<^verbatim>\<open>std::unordered_map<KeyType, Function>\<close>: a finite map.
  The keys are strings, as in every registry the macros define. A callback receives its
  arguments and the state it may mutate through its reference parameters; it returns
  its result, or raises, together with the state it leaves behind. The reader-writer
  lock orders the calls and is not modelled: each operation is one atomic step.
\<close>

type_synonym ('a, 'w, 'r) Function = "'a \<Rightarrow> 'w \<Rightarrow> (error + 'r) \<times> 'w"

type_synonym ('a, 'w, 'r) Registry = "string \<rightharpoonup> ('a, 'w, 'r) Function"

definition Register ::
  "('a, 'w, 'r) Registry \<Rightarrow> string \<Rightarrow> ('a, 'w, 'r) Function \<Rightarrow> ('a, 'w, 'r) Registry" where
  "Register registry key f = registry(key \<mapsto> f)"

definition Has :: "('a, 'w, 'r) Registry \<Rightarrow> string \<Rightarrow> bool" where
  "Has registry key = (registry key \<noteq> None)"

definition Run ::
  "('a, 'w, 'r) Registry \<Rightarrow> string \<Rightarrow> 'a \<Rightarrow> 'w \<Rightarrow> (error + 'r) \<times> 'w" where
  "Run registry key args w =
     (case registry key of
        None \<Rightarrow> (Inl (out_of_range (''Registry key not found: '' @ key)), w)
      | Some f \<Rightarrow> f args w)"

definition Clear :: "('a, 'w, 'r) Registry \<Rightarrow> ('a, 'w, 'r) Registry" where
  "Clear registry = Map.empty"

definition Unregister ::
  "('a, 'w, 'r) Registry \<Rightarrow> string \<Rightarrow> bool \<times> ('a, 'w, 'r) Registry" where
  "Unregister registry key = (registry key \<noteq> None, registry(key := None))"

section \<open>The creator registry (\<^verbatim>\<open>creator::Registry<KeyType, ReturnType, Args...>\<close>)\<close>

text \<open>
  \<^verbatim>\<open>ReturnType\<close> is a smart pointer to the base type: \<open>None\<close> is \<^verbatim>\<open>nullptr\<close>,
  \<open>Some obj\<close> owns \<open>obj\<close>. A factory may raise, as any constructor may.
\<close>

type_synonym ('a, 'obj) creator_Function = "'a \<Rightarrow> error + 'obj option"

type_synonym ('a, 'obj) creator_Registry = "string \<rightharpoonup> ('a, 'obj) creator_Function"

definition creator_Register ::
  "('a, 'obj) creator_Registry \<Rightarrow> string \<Rightarrow> ('a, 'obj) creator_Function
     \<Rightarrow> ('a, 'obj) creator_Registry" where
  "creator_Register registry key f = registry(key \<mapsto> f)"

definition creator_Has :: "('a, 'obj) creator_Registry \<Rightarrow> string \<Rightarrow> bool" where
  "creator_Has registry key = (registry key \<noteq> None)"

definition Create ::
  "('a, 'obj) creator_Registry \<Rightarrow> string \<Rightarrow> 'a \<Rightarrow> error + 'obj option" where
  "Create registry key args =
     (case registry key of
        None \<Rightarrow> Inr None
      | Some f \<Rightarrow> f args)"

text \<open>
  \<^verbatim>\<open>DefaultCreator<DerivedType>\<close>: \<^verbatim>\<open>ReturnType(new DerivedType(args...))\<close>; the
  constructor \<open>ctor\<close> of the derived type is the parameter.
\<close>

definition DefaultCreator :: "('a \<Rightarrow> error + 'obj) \<Rightarrow> ('a, 'obj) creator_Function" where
  "DefaultCreator ctor args =
     (case ctor args of Inl e \<Rightarrow> Inl e | Inr obj \<Rightarrow> Inr (Some obj))"

section \<open>The tree archive (\<^verbatim>\<open>json = nlohmann::ordered_json\<close>)\<close>

text \<open>
  The document type of the JSON library the archive is built on, with its value kinds.
  An object is an ordered map: a sequence of key-value pairs in insertion order, looked
  up from the front. The two integer kinds hold 64-bit values (\<open>JInt\<close> read with
  \<open>sint\<close>, \<open>JUInt\<close> with \<open>uint\<close>); the floating-point kind is idealised as a
  real number.
\<close>

datatype json =
    JNull
  | JBool bool
  | JInt "64 word"
  | JUInt "64 word"
  | JFloat real
  | JString string
  | JBinary "8 word list"
  | JArray "json list"
  | JObject "(string \<times> json) list"

fun is_string :: "json \<Rightarrow> bool" where
  "is_string (JString s) = True"
| "is_string _ = False"

text \<open>\<^verbatim>\<open>contains(key)\<close>: an object that has the key; false on every other kind.\<close>

fun contains :: "json \<Rightarrow> string \<Rightarrow> bool" where
  "contains (JObject kvs) key = (map_of kvs key \<noteq> None)"
| "contains _ key = False"

text \<open>
  \<^verbatim>\<open>operator[](key)\<close> on a mutable document: null becomes an empty object first;
  an object gets the key with a null value when it lacks it; every other kind raises
  \<^verbatim>\<open>type_error\<close> 305. The result is the element referred to and the document after
  the call.
\<close>

fun subscript :: "json \<Rightarrow> string \<Rightarrow> error + (json \<times> json)" where
  "subscript JNull key = Inr (JNull, JObject [(key, JNull)])"
| "subscript (JObject kvs) key =
     (case map_of kvs key of
        None \<Rightarrow> Inr (JNull, JObject (kvs @ [(key, JNull)]))
      | Some v \<Rightarrow> Inr (v, JObject kvs))"
| "subscript _ key = Inl (type_error 305)"

text \<open>\<^verbatim>\<open>archive[key] = v\<close>: the element \<^verbatim>\<open>operator[]\<close> refers to is overwritten.\<close>

fun subscript_assign :: "json \<Rightarrow> string \<Rightarrow> json \<Rightarrow> error + json" where
  "subscript_assign JNull key v = Inr (JObject [(key, v)])"
| "subscript_assign (JObject kvs) key v = Inr (JObject (AList.update key v kvs))"
| "subscript_assign _ key v = Inl (type_error 305)"

text \<open>\<^verbatim>\<open>get<std::string>()\<close>: \<^verbatim>\<open>type_error\<close> 302 unless the value is a string.\<close>

fun get_string :: "json \<Rightarrow> error + string" where
  "get_string (JString s) = Inr s"
| "get_string _ = Inl (type_error 302)"

text \<open>
  \<^verbatim>\<open>get<int>()\<close>: the numeric kinds and booleans convert with \<^verbatim>\<open>static_cast<int>\<close>
  (the low 32 bits of an integer; a floating-point value truncated towards zero,
  undefined when the result does not fit); every other kind raises \<^verbatim>\<open>type_error\<close> 302.
\<close>

definition double_to_int :: "real \<Rightarrow> error + 32 word" where
  "double_to_int r =
     (if - (2 ^ 31) - 1 < r \<and> r < 2 ^ 31
      then Inr (word_of_int (if r < 0 then \<lceil>r\<rceil> else \<lfloor>r\<rfloor>))
      else Inl undefined_behaviour)"

fun get_int :: "json \<Rightarrow> error + 32 word" where
  "get_int (JUInt u) = Inr (ucast u)"
| "get_int (JInt i) = Inr (ucast i)"
| "get_int (JFloat r) = double_to_int r"
| "get_int (JBool b) = Inr (if b then 1 else 0)"
| "get_int _ = Inl (type_error 302)"

subsection \<open>Enumerations\<close>

text \<open>
  What the code uses of an enumeration type \<^verbatim>\<open>EnumType\<close>. \<open>underlying\<close> is the
  value of an enumerator in its underlying type, as a mathematical integer;
  \<open>enum_cast\<close> is \<^verbatim>\<open>static_cast<EnumType>\<close> applied to an \<^verbatim>\<open>int\<close>.
  \<open>enum_to_string\<close> and \<open>string_to_enum\<close> are the helpers of
  \<^verbatim>\<open>util/string_util.h\<close>, which is not among the sources: they are parameters.
\<close>

record 'e enum_traits =
  underlying :: "'e \<Rightarrow> int"
  enum_cast :: "int \<Rightarrow> 'e"
  enum_to_string :: "'e \<Rightarrow> string"
  string_to_enum :: "string \<Rightarrow> error + 'e"

text \<open>\<^verbatim>\<open>static_cast<int>(obj)\<close>: the value modulo \<open>2 ^ 32\<close>, read as two's complement.\<close>

definition static_cast_int :: "'e enum_traits \<Rightarrow> 'e \<Rightarrow> 32 word" where
  "static_cast_int T e = word_of_int (underlying T e)"

definition to_json :: "'e enum_traits \<Rightarrow> json \<Rightarrow> 'e \<Rightarrow> json" where
  "to_json T archive e = JString (enum_to_string T e)"

definition from_json :: "'e enum_traits \<Rightarrow> json \<Rightarrow> error + 'e" where
  "from_json T archive =
     (if is_string archive
      then (case get_string archive of
              Inl err \<Rightarrow> Inl err
            | Inr str \<Rightarrow> string_to_enum T str)
      else (case get_int archive of
              Inl err \<Rightarrow> Inl err
            | Inr i \<Rightarrow> Inr (enum_cast T (sint i))))"

subsection \<open>Field names\<close>

definition CLASS_NAME :: string where
  "CLASS_NAME = ''Class''"

definition SIZE_NAME :: string where
  "SIZE_NAME = ''Size''"

subsection \<open>\<^verbatim>\<open>archiver_wrapper<json>\<close>\<close>

text \<open>
  \<^verbatim>\<open>push\<close> and \<^verbatim>\<open>pop\<close> choose their branch by the static type of the value; each
  branch the properties below are about is a function of its own.
\<close>

definition json_push_monostate :: "json \<Rightarrow> json" where
  "json_push_monostate archive = JNull"

definition json_pop_monostate :: "json \<Rightarrow> unit" where
  "json_pop_monostate archive = ()"

definition json_push_enum :: "'e enum_traits \<Rightarrow> json \<Rightarrow> 'e \<Rightarrow> json" where
  "json_push_enum T archive obj = to_json T archive obj"

definition json_pop_enum :: "'e enum_traits \<Rightarrow> json \<Rightarrow> error + 'e" where
  "json_pop_enum T archive = from_json T archive"

definition json_push_class_name :: "json \<Rightarrow> string \<Rightarrow> error + json" where
  "json_push_class_name archive name = subscript_assign archive CLASS_NAME (JString name)"

text \<open>
  \<^verbatim>\<open>SERIALIZATION_LOG_WARNING(x)\<close> writes one line to \<^verbatim>\<open>std::cerr\<close>, which is
  the list of the lines written so far.
\<close>

definition SERIALIZATION_LOG_WARNING :: "string \<Rightarrow> string list \<Rightarrow> string list" where
  "SERIALIZATION_LOG_WARNING x cerr = cerr @ [''Warning: '' @ x]"

text \<open>
  \<^verbatim>\<open>pop_class_name\<close> takes the archive by mutable reference: the outcome is the value
  returned (or the exception), the archive and the log after the call.
\<close>

definition json_pop_class_name ::
  "json \<Rightarrow> string list \<Rightarrow> (error + string) \<times> json \<times> string list" where
  "json_pop_class_name archive cerr =
     (if \<not> contains archive CLASS_NAME
      then (Inr [], archive,
            SERIALIZATION_LOG_WARNING ''json does not have a class name field!'' cerr)
      else (case subscript archive CLASS_NAME of
              Inl err \<Rightarrow> (Inl err, archive, cerr)
            | Inr (name, archive') \<Rightarrow>
                if is_string name
                then (get_string name, archive', cerr)
                else (Inr [], archive',
                      SERIALIZATION_LOG_WARNING ''Class name field is not a string!'' cerr)))"

definition json_resize :: "json \<Rightarrow> 64 word \<Rightarrow> json" where
  "json_resize archive n = archive"

section \<open>The stream archive (\<^verbatim>\<open>multi_process_stream\<close>)\<close>

text \<open>
  Modelled from the spec: the class \<^verbatim>\<open>serialization::multi_process_stream\<close> and its
  insertion and extraction operators (\<^verbatim>\<open>util/multi_process_stream.h\<close> is not among
  the sources). The spec describes a flat byte sequence, written at its end and
  consumed from an implicit cursor; a value is appended as its canonical bytes and
  extraction consumes those bytes and advances the cursor; an \<^verbatim>\<open>unsigned char\<close> is
  one byte, an \<^verbatim>\<open>int\<close> and an \<^verbatim>\<open>unsigned int\<close> are four bytes; extraction
  from a truncated stream is a fatal condition. The bytes of a 32-bit value are taken
  least significant first.
\<close>

record multi_process_stream =
  data :: "8 word list"
  cursor :: nat

text \<open>Modelled from the spec: a stream nothing has been written to.\<close>

definition empty_stream :: multi_process_stream where
  "empty_stream = \<lparr>data = [], cursor = 0\<rparr>"

text \<open>Modelled from the spec: the four canonical bytes of a 32-bit value.\<close>

definition encode32 :: "32 word \<Rightarrow> 8 word list" where
  "encode32 v = [ucast v, ucast (drop_bit 8 v), ucast (drop_bit 16 v), ucast (drop_bit 24 v)]"

text \<open>Modelled from the spec: the 32-bit value of four bytes.\<close>

fun decode32 :: "8 word list \<Rightarrow> 32 word" where
  "decode32 [b0, b1, b2, b3] =
     ucast b0 OR push_bit 8 (ucast b1) OR push_bit 16 (ucast b2) OR push_bit 24 (ucast b3)"
| "decode32 _ = 0"

text \<open>Modelled from the spec: insertion appends at the end of the sequence.\<close>

definition insert_bytes :: "multi_process_stream \<Rightarrow> 8 word list \<Rightarrow> multi_process_stream" where
  "insert_bytes archive bs = archive\<lparr>data := data archive @ bs\<rparr>"

text \<open>
  Modelled from the spec: extraction consumes the bytes at the cursor and advances it;
  a stream that holds fewer bytes is truncated.
\<close>

definition extract_bytes ::
  "multi_process_stream \<Rightarrow> nat \<Rightarrow> error + (8 word list \<times> multi_process_stream)" where
  "extract_bytes archive n =
     (if cursor archive + n \<le> length (data archive)
      then Inr (take n (drop (cursor archive) (data archive)),
                archive\<lparr>cursor := cursor archive + n\<rparr>)
      else Inl stream_error)"

text \<open>Modelled from the spec: \<^verbatim>\<open>operator<<(unsigned char)\<close>, one byte.\<close>

definition insert_uchar :: "multi_process_stream \<Rightarrow> 8 word \<Rightarrow> multi_process_stream" where
  "insert_uchar archive c = insert_bytes archive [c]"

text \<open>Modelled from the spec: \<^verbatim>\<open>operator>>(unsigned char&)\<close>.\<close>

definition extract_uchar :: "multi_process_stream \<Rightarrow> error + (8 word \<times> multi_process_stream)" where
  "extract_uchar archive =
     (case extract_bytes archive 1 of
        Inl err \<Rightarrow> Inl err
      | Inr (bs, archive') \<Rightarrow> Inr (hd bs, archive'))"

text \<open>
  Modelled from the spec: \<^verbatim>\<open>operator<<(int)\<close>, four bytes. \<^verbatim>\<open>int\<close> and
  \<^verbatim>\<open>unsigned int\<close> are both 32-bit words, read with \<open>sint\<close> and \<open>uint\<close>.
\<close>

definition insert_int :: "multi_process_stream \<Rightarrow> 32 word \<Rightarrow> multi_process_stream" where
  "insert_int archive i = insert_bytes archive (encode32 i)"

text \<open>Modelled from the spec: \<^verbatim>\<open>operator>>(int&)\<close>.\<close>

definition extract_int :: "multi_process_stream \<Rightarrow> error + (32 word \<times> multi_process_stream)" where
  "extract_int archive =
     (case extract_bytes archive 4 of
        Inl err \<Rightarrow> Inl err
      | Inr (bs, archive') \<Rightarrow> Inr (decode32 bs, archive'))"

text \<open>Modelled from the spec: \<^verbatim>\<open>operator<<(unsigned int)\<close>, four bytes.\<close>

definition insert_uint :: "multi_process_stream \<Rightarrow> 32 word \<Rightarrow> multi_process_stream" where
  "insert_uint archive n = insert_bytes archive (encode32 n)"

text \<open>Modelled from the spec: \<^verbatim>\<open>operator>>(unsigned int&)\<close>.\<close>

definition extract_uint :: "multi_process_stream \<Rightarrow> error + (32 word \<times> multi_process_stream)" where
  "extract_uint archive =
     (case extract_bytes archive 4 of
        Inl err \<Rightarrow> Inl err
      | Inr (bs, archive') \<Rightarrow> Inr (decode32 bs, archive'))"

subsection \<open>\<^verbatim>\<open>archiver_wrapper<multi_process_stream>\<close>\<close>

definition stream_push_monostate :: "multi_process_stream \<Rightarrow> multi_process_stream" where
  "stream_push_monostate archive = insert_uchar archive 0"

definition stream_pop_monostate ::
  "multi_process_stream \<Rightarrow> error + (unit \<times> multi_process_stream)" where
  "stream_pop_monostate archive =
     (case extract_uchar archive of
        Inl err \<Rightarrow> Inl err
      | Inr (marker, archive') \<Rightarrow> Inr ((), archive'))"

definition stream_push_enum ::
  "'e enum_traits \<Rightarrow> multi_process_stream \<Rightarrow> 'e \<Rightarrow> multi_process_stream" where
  "stream_push_enum T archive obj = insert_int archive (static_cast_int T obj)"

definition stream_pop_enum ::
  "'e enum_traits \<Rightarrow> multi_process_stream \<Rightarrow> error + ('e \<times> multi_process_stream)" where
  "stream_pop_enum T archive =
     (case extract_int archive of
        Inl err \<Rightarrow> Inl err
      | Inr (i, archive') \<Rightarrow> Inr (enum_cast T (sint i), archive'))"

text \<open>
  \<^verbatim>\<open>size_t\<close> is a 64-bit word, \<^verbatim>\<open>unsigned int\<close> a 32-bit word:
  \<^verbatim>\<open>static_cast<unsigned int>(n)\<close> keeps the low 32 bits, and
  \<^verbatim>\<open>static_cast<size_t>(n)\<close> extends with zeros.
\<close>

definition stream_resize :: "multi_process_stream \<Rightarrow> 64 word \<Rightarrow> multi_process_stream" where
  "stream_resize archive n = insert_uint archive (ucast n)"

definition stream_size :: "multi_process_stream \<Rightarrow> error + (64 word \<times> multi_process_stream)" where
  "stream_size archive =
     (case extract_uint archive of
        Inl err \<Rightarrow> Inl err
      | Inr (n, archive') \<Rightarrow> Inr (ucast n, archive'))"

subsection \<open>Example enumerations\<close>

text \<open>
  Modelled from the spec: the enumeration \<^verbatim>\<open>Color\<close> of the spec's scenario (the
  tests that declare it are not among the sources). \<^verbatim>\<open>Color::Red\<close> has the underlying
  value 0 and the canonical name \<^verbatim>\<open>"Red"\<close>; the underlying type is \<^verbatim>\<open>int\<close>.
  A value of the type is its underlying value, since \<^verbatim>\<open>static_cast<Color>\<close> gives a
  value for every \<^verbatim>\<open>int\<close>.
\<close>

datatype Color = Color int

text \<open>Modelled from the spec: \<^verbatim>\<open>Color::Red\<close>, with the underlying value 0.\<close>

definition Red :: Color where
  "Red = Color 0"

text \<open>
  Modelled from the spec: the conversions of \<^verbatim>\<open>Color\<close>; \<^verbatim>\<open>"Red"\<close> is the
  canonical name of \<^verbatim>\<open>Color::Red\<close>.
\<close>

definition Color_traits :: "Color enum_traits" where
  "Color_traits =
     \<lparr>underlying = (\<lambda>c. case c of Color v \<Rightarrow> v),
      enum_cast = Color,
      enum_to_string = (\<lambda>c. if c = Red then ''Red'' else []),
      string_to_enum = (\<lambda>s. if s = ''Red'' then Inr Red else Inl (out_of_range s))\<rparr>"

text \<open>
  An enumeration with a 64-bit underlying type,
  \<^verbatim>\<open>enum class Offset : long long { Big = 4294967296 }\<close>.
\<close>

datatype Offset = Offset int

definition Big :: Offset where
  "Big = Offset 4294967296"

definition Offset_traits :: "Offset enum_traits" where
  "Offset_traits =
     \<lparr>underlying = (\<lambda>c. case c of Offset v \<Rightarrow> v),
      enum_cast = Offset,
      enum_to_string = (\<lambda>c. if c = Big then ''Big'' else []),
      string_to_enum = (\<lambda>s. if s = ''Big'' then Inr Big else Inl (out_of_range s))\<rparr>"

section \<open>File access (\<^verbatim>\<open>access::read_binary\<close>)\<close>

text \<open>
  The file system maps a path to the bytes of its file; a path with no file cannot be
  opened. The stream is opened positioned at its end, so \<^verbatim>\<open>tellg()\<close> is the size of
  the file, and \<open>-1\<close> on a stream that failed to open; \<^verbatim>\<open>static_cast<size_t>\<close>
  makes it a 64-bit word.
\<close>

definition tellg :: "8 word list option \<Rightarrow> 64 word" where
  "tellg file = (case file of None \<Rightarrow> - 1 | Some bytes \<Rightarrow> of_nat (length bytes))"

text \<open>
  \<^verbatim>\<open>buffer.resize(size)\<close> keeps the first \<open>size\<close> elements and fills up with
  zeros; beyond \<open>max_size\<close> it raises \<^verbatim>\<open>std::length_error\<close>.
\<close>

definition max_size :: nat where
  "max_size = 2 ^ 63 - 1"

definition vector_resize :: "8 word list \<Rightarrow> nat \<Rightarrow> error + 8 word list" where
  "vector_resize buffer n =
     (if max_size < n then Inl length_error
      else Inr (take n buffer @ replicate (n - length buffer) 0))"

text \<open>
  \<^verbatim>\<open>in.seekg(0); in.read(buffer.data(), buffer.size())\<close>: the bytes of the file
  overwrite the buffer from its start, as many as the buffer holds.
\<close>

definition istream_read :: "8 word list option \<Rightarrow> 8 word list \<Rightarrow> 8 word list" where
  "istream_read file buffer =
     (case file of
        None \<Rightarrow> buffer
      | Some bytes \<Rightarrow> take (length buffer) bytes @ drop (length bytes) buffer)"

definition read_binary ::
  "(string \<rightharpoonup> 8 word list) \<Rightarrow> string \<Rightarrow> 8 word list \<Rightarrow> error + 8 word list" where
  "read_binary fs fn buffer =
     (let file = fs fn;
          size = unat (tellg file)
      in if size = 0 then Inr buffer
         else (case vector_resize buffer size of
                 Inl err \<Rightarrow> Inl err
               | Inr buffer' \<Rightarrow> Inr (istream_read file buffer')))"

definition write_binary ::
  "(string \<rightharpoonup> 8 word list) \<Rightarrow> string \<Rightarrow> 8 word list \<Rightarrow> (string \<rightharpoonup> 8 word list)" where
  "write_binary fs fn buffer = fs(fn \<mapsto> buffer)"

section \<open>Auxiliary facts\<close>

lemma decode32_encode32: "decode32 (encode32 v) = v"
  unfolding encode32_def decode32.simps
proof (rule bit_word_eqI)
  fix n :: nat
  assume "n < LENGTH(32)"
  then have n: "n < 32" by simp
  consider "n < 8" | "8 \<le> n" "n < 16" | "16 \<le> n" "n < 24" | "24 \<le> n"
    by linarith
  then show "bit (ucast (ucast v :: 8 word) OR push_bit 8 (ucast (ucast (drop_bit 8 v) :: 8 word))
        OR push_bit 16 (ucast (ucast (drop_bit 16 v) :: 8 word))
        OR push_bit 24 (ucast (ucast (drop_bit 24 v) :: 8 word)) :: 32 word) n = bit v n"
    using n by cases (auto simp add: bit_simps)
qed

lemma length_encode32: "length (encode32 v) = 4"
  by (simp add: encode32_def)

lemma extract_bytes_insert_bytes:
  "cursor archive = length (data archive) \<Longrightarrow>
   extract_bytes (insert_bytes archive bs) (length bs) =
     Inr (bs, (insert_bytes archive bs)\<lparr>cursor := cursor archive + length bs\<rparr>)"
  by (simp add: extract_bytes_def insert_bytes_def)

lemma extract_int_insert_int:
  "cursor archive = length (data archive) \<Longrightarrow>
   extract_int (insert_int archive v) =
     Inr (v, (insert_int archive v)\<lparr>cursor := cursor archive + 4\<rparr>)"
  using extract_bytes_insert_bytes [of archive "encode32 v"]
  by (simp add: extract_int_def insert_int_def length_encode32 decode32_encode32)

lemma extract_uint_insert_uint:
  "cursor archive = length (data archive) \<Longrightarrow>
   extract_uint (insert_uint archive v) =
     Inr (v, (insert_uint archive v)\<lparr>cursor := cursor archive + 4\<rparr>)"
  using extract_bytes_insert_bytes [of archive "encode32 v"]
  by (simp add: extract_uint_def insert_uint_def length_encode32 decode32_encode32)

lemma sint_word_of_int_32:
  "- (2 ^ 31) \<le> i \<Longrightarrow> i < 2 ^ 31 \<Longrightarrow> sint (word_of_int i :: 32 word) = i"
  by (simp add: int_word_sint)

lemma ucast_ucast_take_bit:
  "(ucast (ucast (n :: 64 word) :: 32 word) :: 64 word) = take_bit 32 n"
  by (rule bit_word_eqI) (auto simp add: bit_simps)

lemma unat_take_bit_32: "unat (take_bit 32 (n :: 64 word)) = unat n mod 2 ^ 32"
  unfolding unsigned_take_bit_eq by (simp add: take_bit_eq_mod)

lemma contains_cases:
  "contains archive key \<Longrightarrow> \<exists>kvs v. archive = JObject kvs \<and> map_of kvs key = Some v"
  by (cases archive) auto

lemma get_string_is_string: "is_string v \<Longrightarrow> \<exists>s. get_string v = Inr s"
  by (cases v) auto

lemma map_of_update_same: "map_of (AList.update k v al) k = Some v"
  by (simp add: update_conv')

section \<open>Properties of the registries\<close>

text \<open>
  Claim C1. Registering a key twice always succeeds (\<open>Register\<close> is total), and
  afterwards \<open>Has\<close> holds for the key and \<open>Run\<close> invokes the second callback; the
  registry is the one obtained by registering the second callback alone, so the first
  callback is no longer reachable.
\<close>

theorem Register_last_wins:
  fixes registry :: "('a, 'w, 'r) Registry"
  shows "Has (Register (Register registry K f1) K f2) K
       \<and> Run (Register (Register registry K f1) K f2) K args w = f2 args w
       \<and> Register (Register registry K f1) K f2 = Register registry K f2"
  by (simp add: Register_def Has_def Run_def)

text \<open>The scenario of the spec: key \<^verbatim>\<open>"A"\<close> registered twice.\<close>

theorem Register_last_wins_witness:
  "Has (Register (Register Map.empty ''A'' (\<lambda>a w. (Inr (a + 1 :: nat), w :: nat)))
          ''A'' (\<lambda>a w. (Inr (a * 2 :: nat), w + 1 :: nat))) ''A''
   \<and> Run (Register (Register Map.empty ''A'' (\<lambda>a w. (Inr (a + 1 :: nat), w :: nat)))
          ''A'' (\<lambda>a w. (Inr (a * 2 :: nat), w + 1 :: nat))) ''A'' (5::nat) (7::nat)
       = (Inr (10::nat), 8)"
  using Register_last_wins [of Map.empty "''A''" "\<lambda>a w. (Inr (a + 1 :: nat), w :: nat)"
      "\<lambda>a w. (Inr (a * 2 :: nat), w + 1 :: nat)" "5::nat" "7::nat"]
  by (simp add: Register_def Has_def Run_def)

text \<open>
  Claim C2. \<open>Run\<close> on a key that is not registered invokes no callback (the state
  the callbacks act on is returned as it was) and fails with \<open>out_of_range\<close>, whose
  message ends with the missing key; on a registered key it is the registered
  callback applied to the given arguments: its result and its effect.
\<close>

theorem Run_key_not_found:
  fixes registry :: "('a, 'w, 'r) Registry"
  shows "(\<not> Has registry K \<longrightarrow>
            Run registry K args w = (Inl (out_of_range (''Registry key not found: '' @ K)), w))
       \<and> (registry K = Some f \<longrightarrow> Has registry K \<and> Run registry K args w = f args w)"
  by (simp add: Has_def Run_def)

theorem Run_key_not_found_witness:
  "\<not> Has (Register Map.empty ''A'' (\<lambda>a w. (Inr (a + 1), w + a))) ''B''
   \<and> Run (Register Map.empty ''A'' (\<lambda>a w. (Inr (a + 1), w + a))) ''B'' (5::nat) (7::nat)
       = (Inl (out_of_range ''Registry key not found: B''), 7)
   \<and> Has (Register Map.empty ''A'' (\<lambda>a w. (Inr (a + 1), w + a))) ''A''
   \<and> Run (Register Map.empty ''A'' (\<lambda>a w. (Inr (a + 1), w + a))) ''A'' (5::nat) (7::nat)
       = (Inr (6::nat), 12)"
  using Run_key_not_found [of "Register Map.empty ''A'' (\<lambda>a w. (Inr (a + 1), w + a))"
      "''B''" "5::nat" "7::nat" "\<lambda>a w. (Inr (a + 1 :: nat), w + a)"]
    Run_key_not_found [of "Register Map.empty ''A'' (\<lambda>a w. (Inr (a + 1), w + a))"
      "''A''" "5::nat" "7::nat" "\<lambda>a w. (Inr (a + 1 :: nat), w + a)"]
  by (simp add: Register_def Has_def)

text \<open>
  Claim C3. \<open>Create\<close> on a key that is not registered returns the null pointer
  and raises nothing; on a registered key it returns what the registered factory
  returns for the given arguments, and for a factory made by \<open>DefaultCreator\<close> from a
  constructor that succeeds this is the newly constructed instance.
\<close>

theorem Create_unregistered_null:
  fixes registry :: "('a, 'obj) creator_Registry"
  shows "(\<not> creator_Has registry K \<longrightarrow> Create registry K args = Inr None)
       \<and> (registry K = Some f \<longrightarrow> creator_Has registry K \<and> Create registry K args = f args)
       \<and> (ctor args = Inr obj \<longrightarrow>
            Create (creator_Register registry K (DefaultCreator ctor)) K args = Inr (Some obj))"
  by (simp add: creator_Has_def Create_def creator_Register_def DefaultCreator_def)

theorem Create_unregistered_null_witness:
  "\<not> creator_Has
        (creator_Register Map.empty ''Circle'' (DefaultCreator (\<lambda>r. Inr (r * (2::nat)))))
        ''UnknownType''
   \<and> Create (creator_Register Map.empty ''Circle'' (DefaultCreator (\<lambda>r. Inr (r * 2))))
        ''UnknownType'' (3::nat) = (Inr None :: error + nat option)
   \<and> Create (creator_Register Map.empty ''Circle'' (DefaultCreator (\<lambda>r. Inr (r * 2))))
        ''Circle'' (3::nat) = (Inr (Some 6) :: error + nat option)"
  using Create_unregistered_null [of
      "creator_Register Map.empty ''Circle'' (DefaultCreator (\<lambda>r. Inr (r * 2)))"
      "''UnknownType''" "3::nat" "DefaultCreator (\<lambda>r. Inr (r * 2))" "\<lambda>r. Inr (r * 2)" "6::nat"]
    Create_unregistered_null [of "Map.empty" "''Circle''" "3::nat"
      "DefaultCreator (\<lambda>r. Inr (r * 2))" "\<lambda>r. Inr (r * 2)" "6::nat"]
  by (simp add: creator_Has_def creator_Register_def)

section \<open>Properties of the tree archive\<close>

text \<open>
  Claim C4. \<open>json_pop_class_name\<close> returns the value of the \<^verbatim>\<open>"Class"\<close> field when
  the archive has the field and it holds a string, logging nothing; when the archive
  lacks the field (which includes every archive that is not an object), or has it with
  a value that is not a string, it logs one warning and returns the empty string. It
  leaves the archive as it was, and whatever the archive is, it returns a string and
  does not raise.
\<close>

theorem json_pop_class_name_never_raises:
  "(map_of kvs CLASS_NAME = Some (JString name) \<longrightarrow>
      json_pop_class_name (JObject kvs) cerr = (Inr name, JObject kvs, cerr))
   \<and> (\<not> contains archive CLASS_NAME \<longrightarrow>
      json_pop_class_name archive cerr =
        (Inr [], archive, cerr @ [''Warning: json does not have a class name field!'']))
   \<and> (map_of kvs CLASS_NAME = Some v \<and> \<not> is_string v \<longrightarrow>
      json_pop_class_name (JObject kvs) cerr =
        (Inr [], JObject kvs, cerr @ [''Warning: Class name field is not a string!'']))
   \<and> (\<exists>s. fst (json_pop_class_name archive cerr) = Inr s)"
proof -
  have present: "map_of kvs CLASS_NAME = Some (JString name) \<longrightarrow>
      json_pop_class_name (JObject kvs) cerr = (Inr name, JObject kvs, cerr)"
    by (simp add: json_pop_class_name_def)
  have absent: "\<not> contains archive CLASS_NAME \<longrightarrow>
      json_pop_class_name archive cerr =
        (Inr [], archive, cerr @ [''Warning: json does not have a class name field!''])"
    by (simp add: json_pop_class_name_def SERIALIZATION_LOG_WARNING_def)
  have other: "map_of kvs CLASS_NAME = Some v \<and> \<not> is_string v \<longrightarrow>
      json_pop_class_name (JObject kvs) cerr =
        (Inr [], JObject kvs, cerr @ [''Warning: Class name field is not a string!''])"
    by (simp add: json_pop_class_name_def SERIALIZATION_LOG_WARNING_def)
  have total: "\<exists>s. fst (json_pop_class_name archive cerr) = Inr s"
  proof (cases "contains archive CLASS_NAME")
    case False
    then show ?thesis by (simp add: json_pop_class_name_def)
  next
    case True
    then obtain kvs' v' where a: "archive = JObject kvs'" "map_of kvs' CLASS_NAME = Some v'"
      using contains_cases by blast
    show ?thesis
    proof (cases "is_string v'")
      case True
      then obtain s where "get_string v' = Inr s"
        using get_string_is_string by blast
      with a True show ?thesis by (simp add: json_pop_class_name_def)
    next
      case False
      with a show ?thesis by (simp add: json_pop_class_name_def)
    qed
  qed
  from present absent other total show ?thesis by blast
qed

theorem json_pop_class_name_never_raises_witness:
  "json_pop_class_name (JObject [(''x'', JInt 1), (''Class'', JString ''Circle'')]) [] =
     (Inr ''Circle'', JObject [(''x'', JInt 1), (''Class'', JString ''Circle'')], [])
   \<and> json_pop_class_name (JObject [(''x'', JInt 1)]) [] =
     (Inr [], JObject [(''x'', JInt 1)], [''Warning: json does not have a class name field!''])
   \<and> json_pop_class_name (JArray [JInt 1]) [] =
     (Inr [], JArray [JInt 1], [''Warning: json does not have a class name field!''])
   \<and> json_pop_class_name (JObject [(''Class'', JInt 7)]) [] =
     (Inr [], JObject [(''Class'', JInt 7)], [''Warning: Class name field is not a string!''])"
  using json_pop_class_name_never_raises
      [of "[(''x'', JInt 1), (''Class'', JString ''Circle'')]" "''Circle''" "[]"
          "JObject [(''x'', JInt 1)]" "JInt 7"]
    json_pop_class_name_never_raises
      [of "[(''Class'', JInt 7)]" "''Circle''" "[]" "JArray [JInt 1]" "JInt 7"]
  by (simp add: CLASS_NAME_def)

text \<open>
  Claim C5, as the code has it. Pushing an enumerated value to the tree archive makes
  the archive the string \<open>enum_to_string\<close> gives for it. Pushing it to the stream
  archive appends the four bytes of \<^verbatim>\<open>static_cast<int>\<close> of the value, which a
  following extraction reads back: the underlying value reduced to 32 bits, two's
  complement. This is the underlying value itself whenever that lies between
  \<open>- 2 ^ 31\<close> and \<open>2 ^ 31 - 1\<close>, as for every enumeration whose underlying type is
  \<^verbatim>\<open>int\<close> or narrower.
\<close>

theorem enum_push_encoding:
  "json_push_enum T j e = JString (enum_to_string T e)
   \<and> data (stream_push_enum T archive e) = data archive @ encode32 (static_cast_int T e)
   \<and> length (encode32 (static_cast_int T e)) = 4
   \<and> (cursor archive = length (data archive) \<longrightarrow>
        extract_int (stream_push_enum T archive e) =
          Inr (static_cast_int T e, (stream_push_enum T archive e)\<lparr>cursor := cursor archive + 4\<rparr>))
   \<and> sint (static_cast_int T e) = signed_take_bit 31 (underlying T e)
   \<and> (- (2 ^ 31) \<le> underlying T e \<and> underlying T e < 2 ^ 31 \<longrightarrow>
        sint (static_cast_int T e) = underlying T e)"
proof -
  have "cursor archive = length (data archive) \<longrightarrow>
        extract_int (stream_push_enum T archive e) =
          Inr (static_cast_int T e, (stream_push_enum T archive e)\<lparr>cursor := cursor archive + 4\<rparr>)"
    using extract_int_insert_int [of archive "static_cast_int T e"]
    by (simp add: stream_push_enum_def)
  moreover have "sint (static_cast_int T e) = signed_take_bit 31 (underlying T e)"
    by (simp add: static_cast_int_def sint_sbintrunc')
  moreover have "- (2 ^ 31) \<le> underlying T e \<and> underlying T e < 2 ^ 31 \<longrightarrow>
        sint (static_cast_int T e) = underlying T e"
    using sint_word_of_int_32 [of "underlying T e"] by (simp add: static_cast_int_def)
  ultimately show ?thesis
    by (simp add: json_push_enum_def to_json_def stream_push_enum_def insert_int_def
        insert_bytes_def length_encode32)
qed

text \<open>
  The scenario of the spec: \<^verbatim>\<open>Color::Red\<close> is the string \<^verbatim>\<open>"Red"\<close> in the tree
  format and the four bytes of the integer 0 in the stream format.
\<close>

theorem enum_push_encoding_witness:
  "json_push_enum Color_traits JNull Red = JString ''Red''
   \<and> underlying Color_traits Red = 0
   \<and> data (stream_push_enum Color_traits empty_stream Red) = [0, 0, 0, 0]
   \<and> extract_int (stream_push_enum Color_traits empty_stream Red) =
        Inr (0, \<lparr>data = [0, 0, 0, 0], cursor = 4\<rparr>)"
  using enum_push_encoding [of Color_traits JNull Red empty_stream]
  by (simp add: Color_traits_def Red_def static_cast_int_def empty_stream_def encode32_def
      stream_push_enum_def insert_int_def insert_bytes_def)

text \<open>
  An enumerator whose underlying value does not fit an \<^verbatim>\<open>int\<close> is not written as its
  underlying value: \<^verbatim>\<open>Offset::Big\<close>, with the underlying value \<open>2 ^ 32\<close>, is
  written as the integer 0.
\<close>

theorem enum_push_encoding_counterexample:
  "underlying Offset_traits Big = 4294967296
   \<and> data (stream_push_enum Offset_traits empty_stream Big) = [0, 0, 0, 0]
   \<and> extract_int (stream_push_enum Offset_traits empty_stream Big) =
        Inr (0, \<lparr>data = [0, 0, 0, 0], cursor = 4\<rparr>)
   \<and> sint (0 :: 32 word) \<noteq> underlying Offset_traits Big"
  by (simp add: Offset_traits_def Big_def static_cast_int_def empty_stream_def encode32_def
      stream_push_enum_def insert_int_def insert_bytes_def extract_int_def extract_bytes_def)

text \<open>
  Claim C6. Pushing the unit value makes the tree archive null, and appends exactly one
  byte, the marker 0, to the stream archive without moving the cursor. Popping the unit
  value from a stream with an unread byte consumes exactly one byte and gives the unit
  value; so does popping right after the push on a stream that had been read to its end.
\<close>

theorem monostate_single_marker:
  "json_push_monostate j = JNull
   \<and> data (stream_push_monostate archive) = data archive @ [0]
   \<and> length (data (stream_push_monostate archive)) = length (data archive) + 1
   \<and> cursor (stream_push_monostate archive) = cursor archive
   \<and> (cursor archive < length (data archive) \<longrightarrow>
        stream_pop_monostate archive = Inr ((), archive\<lparr>cursor := cursor archive + 1\<rparr>))
   \<and> (cursor archive = length (data archive) \<longrightarrow>
        stream_pop_monostate (stream_push_monostate archive) =
          Inr ((), (stream_push_monostate archive)\<lparr>cursor := cursor archive + 1\<rparr>))"
  by (simp add: json_push_monostate_def stream_push_monostate_def stream_pop_monostate_def
      insert_uchar_def insert_bytes_def extract_uchar_def extract_bytes_def)

theorem monostate_single_marker_witness:
  "json_push_monostate (JInt 5) = JNull
   \<and> stream_push_monostate empty_stream = \<lparr>data = [0], cursor = 0\<rparr>
   \<and> stream_pop_monostate \<lparr>data = [0], cursor = 0\<rparr> = Inr ((), \<lparr>data = [0], cursor = 1\<rparr>)
   \<and> stream_pop_monostate (stream_push_monostate empty_stream) =
        Inr ((), \<lparr>data = [0], cursor = 1\<rparr>)"
  using monostate_single_marker [of "JInt 5" empty_stream]
    monostate_single_marker [of "JInt 5" "\<lparr>data = [0], cursor = 0\<rparr>"]
  by (simp add: empty_stream_def stream_push_monostate_def insert_uchar_def insert_bytes_def)

section \<open>Properties of the stream archive\<close>

text \<open>
  Claim C7, as the code has it. On a stream read to its end, \<open>stream_resize\<close> appends
  the four bytes of the low 32 bits of the element count \<open>n\<close>, and the following
  \<open>stream_size\<close> consumes them and returns \<open>n mod 2 ^ 32\<close>. This is \<open>n\<close> exactly
  when \<open>n < 2 ^ 32\<close>.
\<close>

theorem stream_size_after_resize:
  assumes "cursor archive = length (data archive)"
  shows "stream_size (stream_resize archive n) =
           Inr (take_bit 32 n, (stream_resize archive n)\<lparr>cursor := cursor archive + 4\<rparr>)
       \<and> data (stream_resize archive n) = data archive @ encode32 (ucast n)
       \<and> unat (take_bit 32 n) = unat n mod 2 ^ 32
       \<and> (take_bit 32 n = n \<longleftrightarrow> unat n < 2 ^ 32)"
proof -
  have "stream_size (stream_resize archive n) =
           Inr (take_bit 32 n, (stream_resize archive n)\<lparr>cursor := cursor archive + 4\<rparr>)"
    using extract_uint_insert_uint [OF assms, of "ucast n"]
    by (simp add: stream_size_def stream_resize_def ucast_ucast_take_bit)
  moreover have "data (stream_resize archive n) = data archive @ encode32 (ucast n)"
    by (simp add: stream_resize_def insert_uint_def insert_bytes_def)
  moreover have "take_bit 32 n = n \<longleftrightarrow> unat n < 2 ^ 32"
  proof
    assume "take_bit 32 n = n"
    then have "unat n = unat n mod 2 ^ 32"
      using unat_take_bit_32 [of n] by simp
    then show "unat n < 2 ^ 32"
      by (metis mod_less_divisor zero_less_numeral zero_less_power)
  next
    assume "unat n < 2 ^ 32"
    then have "unat (take_bit 32 n) = unat n"
      by (simp add: unat_take_bit_32)
    then show "take_bit 32 n = n"
      by (simp add: word_unat_eq_iff)
  qed
  ultimately show ?thesis
    by (simp add: unat_take_bit_32)
qed

theorem stream_size_after_resize_witness:
  "cursor empty_stream = length (data empty_stream)
   \<and> stream_size (stream_resize empty_stream 3) = Inr (3, \<lparr>data = [3, 0, 0, 0], cursor = 4\<rparr>)"
  using stream_size_after_resize [of empty_stream 3]
  by (simp add: empty_stream_def stream_resize_def insert_uint_def insert_bytes_def encode32_def)

text \<open>
  The element count \<open>2 ^ 32\<close> is read back as 0.
\<close>

theorem stream_size_after_resize_counterexample:
  "stream_size (stream_resize empty_stream 4294967296) =
     Inr (0, \<lparr>data = [0, 0, 0, 0], cursor = 4\<rparr>)
   \<and> (4294967296 :: 64 word) \<noteq> 0"
  by (simp add: empty_stream_def stream_resize_def insert_uint_def insert_bytes_def encode32_def
      stream_size_def extract_uint_def extract_bytes_def)

section \<open>Field names and enumerations in the tree archive\<close>

text \<open>
  Claim C8. The class-name field is named \<^verbatim>\<open>"Class"\<close> and the container-size field
  \<^verbatim>\<open>"Size"\<close>. \<open>json_push_class_name\<close> sets the field \<^verbatim>\<open>"Class"\<close> of an object, or
  of the object a null archive becomes, to the name; whenever it succeeds, the archive
  has the field \<^verbatim>\<open>"Class"\<close> holding the name, and \<open>json_pop_class_name\<close> reads the
  name back from it, with no warning.
\<close>

theorem class_and_size_field_names:
  "CLASS_NAME = ''Class'' \<and> SIZE_NAME = ''Size''
   \<and> json_push_class_name JNull name = Inr (JObject [(''Class'', JString name)])
   \<and> json_push_class_name (JObject kvs) name =
        Inr (JObject (AList.update ''Class'' (JString name) kvs))
   \<and> (json_push_class_name archive name = Inr archive' \<longrightarrow>
        contains archive' ''Class''
        \<and> subscript archive' ''Class'' = Inr (JString name, archive')
        \<and> json_pop_class_name archive' cerr = (Inr name, archive', cerr))"
proof -
  have "json_push_class_name archive name = Inr archive' \<longrightarrow>
        contains archive' ''Class''
        \<and> subscript archive' ''Class'' = Inr (JString name, archive')
        \<and> json_pop_class_name archive' cerr = (Inr name, archive', cerr)"
    by (cases archive)
      (auto simp add: json_push_class_name_def json_pop_class_name_def CLASS_NAME_def
        map_of_update_same)
  then show ?thesis
    by (simp add: json_push_class_name_def CLASS_NAME_def SIZE_NAME_def)
qed

theorem class_and_size_field_names_witness:
  "json_push_class_name (JObject [(''r'', JInt 2)]) ''Circle'' =
     Inr (JObject [(''r'', JInt 2), (''Class'', JString ''Circle'')])
   \<and> contains (JObject [(''r'', JInt 2), (''Class'', JString ''Circle'')]) ''Class''
   \<and> json_pop_class_name (JObject [(''r'', JInt 2), (''Class'', JString ''Circle'')]) [] =
       (Inr ''Circle'', JObject [(''r'', JInt 2), (''Class'', JString ''Circle'')], [])"
  using class_and_size_field_names [of "''Circle''" "[(''r'', JInt 2)]"
      "JObject [(''r'', JInt 2)]" "JObject [(''r'', JInt 2), (''Class'', JString ''Circle'')]" "[]"]
  by (simp add: json_push_class_name_def CLASS_NAME_def)

text \<open>
  Claim C9. \<open>from_json\<close>, which is what \<open>json_pop_enum\<close> calls, accepts two
  representations of an enumerated value: a string is handed to \<open>string_to_enum\<close>;
  every other value is read with \<^verbatim>\<open>get<int>\<close> and the integer is cast to the
  enumeration type. So a field that holds an integer, signed or unsigned, loads
  successfully.
\<close>

theorem from_json_two_representations:
  "from_json T (JString s) = string_to_enum T s
   \<and> (\<not> is_string archive \<longrightarrow>
        from_json T archive =
          (case get_int archive of Inl err \<Rightarrow> Inl err | Inr i \<Rightarrow> Inr (enum_cast T (sint i))))
   \<and> from_json T (JInt i) = Inr (enum_cast T (sint (ucast i :: 32 word)))
   \<and> from_json T (JUInt u) = Inr (enum_cast T (sint (ucast u :: 32 word)))
   \<and> json_pop_enum T archive = from_json T archive"
  by (simp add: from_json_def json_pop_enum_def)

theorem from_json_two_representations_witness:
  "from_json Color_traits (JString ''Red'') = Inr Red
   \<and> \<not> is_string (JInt 0)
   \<and> from_json Color_traits (JInt 0) = Inr Red
   \<and> from_json Color_traits (JUInt 0) = Inr Red
   \<and> json_pop_enum Color_traits (JInt 0) = Inr Red"
  using from_json_two_representations [of Color_traits "''Red''" "JInt 0" 0 0]
  by (simp add: Color_traits_def Red_def)

section \<open>Properties of file access\<close>

text \<open>
  Claim C10. When the file \<open>read_binary\<close> opens is empty, it returns at once: the
  caller's buffer is what it was, neither cleared nor resized.
\<close>

theorem read_binary_empty_file:
  "fs fn = Some [] \<Longrightarrow> read_binary fs fn buffer = Inr buffer"
  by (simp add: read_binary_def tellg_def)

theorem read_binary_empty_file_witness:
  "[''empty.bin'' \<mapsto> []] ''empty.bin'' = Some ([] :: 8 word list)
   \<and> read_binary [''empty.bin'' \<mapsto> []] ''empty.bin'' [1, 2, 3] = Inr [1, 2, 3]"
  using read_binary_empty_file [of "[''empty.bin'' \<mapsto> []]" "''empty.bin''" "[1, 2, 3]"]
  by simp

end
